theory Spec2Isabelle
  imports Main "HOL-Library.Sublist"
begin

section \<open>The transformation engine of job.runner.py\<close>

text \<open>
  The engine reads a job definition, and for each entry resolves a parser class by name
  (remote registry first, the local \<open>parsers\<close> package second), instantiates it and
  dispatches one operation. The embedding follows the three source files
  \<^verbatim>\<open>utils/file_manager.py\<close>, \<^verbatim>\<open>job.runner.py\<close> and \<^verbatim>\<open>parsers/base_parser.py\<close>,
  and the two builtin parsers.

  Python strings are modelled as \<^typ>\<open>string\<close> with one \<^typ>\<open>char\<close> per code point, which
  covers the code points 0 to 255. What the code does to the outside (files, S3, imports,
  parser code) is explicit state passing over a state \<open>'w\<close>: a computation maps a state
  to a result or a raised exception, and the state it leaves.
\<close>

subsection \<open>Strings: \<^verbatim>\<open>camel_to_snake\<close> and \<^verbatim>\<open>s3_to_local\<close>\<close>

text \<open>The character classes \<^verbatim>\<open>[A-Z]\<close>, \<^verbatim>\<open>[a-z]\<close> and \<^verbatim>\<open>[0-9]\<close> of the two patterns.\<close>

definition is_upper :: "char \<Rightarrow> bool" where
  "is_upper c \<longleftrightarrow> 65 \<le> (of_char c :: nat) \<and> (of_char c :: nat) \<le> 90"

definition is_lower :: "char \<Rightarrow> bool" where
  "is_lower c \<longleftrightarrow> 97 \<le> (of_char c :: nat) \<and> (of_char c :: nat) \<le> 122"

definition is_digit :: "char \<Rightarrow> bool" where
  "is_digit c \<longleftrightarrow> 48 \<le> (of_char c :: nat) \<and> (of_char c :: nat) \<le> 57"

text \<open>
  \<^verbatim>\<open>str.lower()\<close> on one code point below 256: the ASCII capitals and the Latin-1
  capitals (192 to 222, the multiplication sign 215 apart) move up by 32.
\<close>

definition lower_char :: "char \<Rightarrow> char" where
  "lower_char c =
     (let n = (of_char c :: nat)
      in if (65 \<le> n \<and> n \<le> 90) \<or> (192 \<le> n \<and> n \<le> 222 \<and> n \<noteq> 215)
         then char_of (n + 32) else c)"

definition lower :: "string \<Rightarrow> string" where
  "lower s = map lower_char s"

text \<open>
  \<^verbatim>\<open>re.sub(r'(.)([A-Z][a-z]+)', r'\1_\2', name)\<close>: scanning from the left, a match
  starts at a character other than newline that is followed by a capital and at least one
  lowercase letter; the match takes the whole run of lowercase letters, and the scan goes
  on behind it.
\<close>

function sub_word_boundary :: "string \<Rightarrow> string" where
  "sub_word_boundary (c # u # l # rest) =
     (if c \<noteq> CHR 0x0A \<and> is_upper u \<and> is_lower l
      then c # CHR ''_'' # u # takeWhile is_lower (l # rest)
             @ sub_word_boundary (dropWhile is_lower (l # rest))
      else c # sub_word_boundary (u # l # rest))"
| "sub_word_boundary [c, u] = [c, u]"
| "sub_word_boundary [c] = [c]"
| "sub_word_boundary [] = []"
  by pat_completeness auto
termination
proof (relation "measure length")
  show "wf (measure length)" by simp
next
  fix c u :: char and l rest
  show "(dropWhile is_lower (l # rest), c # u # l # rest) \<in> measure length"
    using length_dropWhile_le [of is_lower "l # rest"] by (simp del: dropWhile.simps)
next
  fix c u :: char and l rest
  show "(u # l # rest, c # u # l # rest) \<in> measure length" by simp
qed

text \<open>\<^verbatim>\<open>re.sub(r'([a-z0-9])([A-Z])', r'\1_\2', s1)\<close>.\<close>

fun sub_lower_upper :: "string \<Rightarrow> string" where
  "sub_lower_upper (a # b # rest) =
     (if (is_lower a \<or> is_digit a) \<and> is_upper b
      then a # CHR ''_'' # b # sub_lower_upper rest
      else a # sub_lower_upper (b # rest))"
| "sub_lower_upper [a] = [a]"
| "sub_lower_upper [] = []"

definition camel_to_snake :: "string \<Rightarrow> string" where
  "camel_to_snake name = lower (sub_lower_upper (sub_word_boundary name))"

text \<open>
  \<^verbatim>\<open>s.replace(old, new)\<close>: every occurrence of \<open>old\<close>, leftmost first and without
  overlap; an empty \<open>old\<close> matches before every character and at the end.
\<close>

function py_replace :: "string \<Rightarrow> string \<Rightarrow> string \<Rightarrow> string" where
  "py_replace old new s =
     (if old = [] then new @ concat (map (\<lambda>c. c # new) s)
      else if s = [] then []
      else if prefix old s
           then new @ py_replace old new (drop (length old) s)
           else hd s # py_replace old new (tl s))"
  by pat_completeness auto
termination
  by (relation "measure (\<lambda>(old, new, s). length s)") auto

declare py_replace.simps [simp del]

definition s3_to_local :: "string \<Rightarrow> string" where
  "s3_to_local s3_path = py_replace ''s3://'' ''s3/'' s3_path"

text \<open>\<open>occurs_in old s\<close>: \<open>old\<close> occurs somewhere in \<open>s\<close>.\<close>

fun occurs_in :: "string \<Rightarrow> string \<Rightarrow> bool" where
  "occurs_in old [] = (old = [])"
| "occurs_in old (c # cs) = (prefix old (c # cs) \<or> occurs_in old cs)"

text \<open>\<^verbatim>\<open>os.path.basename\<close> and \<^verbatim>\<open>os.path.join\<close> of two parts, on POSIX paths.\<close>

definition basename :: "string \<Rightarrow> string" where
  "basename p = rev (takeWhile (\<lambda>c. c \<noteq> CHR ''/'') (rev p))"

definition path_join :: "string \<Rightarrow> string \<Rightarrow> string" where
  "path_join a b =
     (if b \<noteq> [] \<and> hd b = CHR ''/'' then b
      else if a = [] \<or> last a = CHR ''/'' then a @ b
      else a @ ''/'' @ b)"

subsection \<open>Values, exceptions, objects\<close>

text \<open>
  The values \<^verbatim>\<open>json.load\<close> produces, which are also what a parser's method returns.
  \<open>PObject b\<close> is any other object, with its truth value \<open>b\<close>: a float read from JSON,
  or a tuple, a bytes object or \<^verbatim>\<open>NotImplemented\<close> returned by a method. Such a value is
  never subscripted or iterated by this code unless it is a float, and the functions below
  treat it as a float.
\<close>

datatype pyval =
    PNone
  | PBool bool
  | PInt int
  | PStr string
  | PList "pyval list"
  | PDict "(string \<times> pyval) list"
  | PObject bool

text \<open>
  What can be raised. The last three derive from \<^verbatim>\<open>BaseException\<close> only, so
  \<^verbatim>\<open>except Exception\<close> lets them pass; \<open>GenericException\<close> is \<^verbatim>\<open>raise Exception(...)\<close>.
\<close>

datatype exn =
    KeyError | TypeError | AttributeError | ValueError | NotImplementedError
  | ImportError | FileNotFoundError | JSONDecodeError
  | NoCredentialsError | ClientError | OverflowError | MemoryError | GenericException
  | SystemExit | KeyboardInterrupt | GeneratorExit

fun is_Exception :: "exn \<Rightarrow> bool" where
  "is_Exception SystemExit = False"
| "is_Exception KeyboardInterrupt = False"
| "is_Exception GeneratorExit = False"
| "is_Exception _ = True"

text \<open>
  An attribute of an object is a plain value or something callable; a call takes the
  positional and the keyword arguments and the state. \<open>Callable\<close> is a callable that is
  truthy, as functions and bound methods are; \<open>FalsyCallable\<close> is a callable object whose
  truth value is false (its class defines \<^verbatim>\<open>__bool__\<close> or \<^verbatim>\<open>__len__\<close> so).
\<close>

datatype 'w attr =
    Data pyval
  | Callable "pyval list \<Rightarrow> (string \<times> pyval) list \<Rightarrow> 'w \<Rightarrow> (exn + pyval) \<times> 'w"
  | FalsyCallable "pyval list \<Rightarrow> (string \<times> pyval) list \<Rightarrow> 'w \<Rightarrow> (exn + pyval) \<times> 'w"

text \<open>
  What \<^verbatim>\<open>create_parser\<close> can return: \<^verbatim>\<open>None\<close>, \<^verbatim>\<open>False\<close>, or an instance, given by
  its attribute table.
\<close>

datatype 'w pyobj = ObjNone | ObjFalse | ObjInstance "string \<Rightarrow> 'w attr option"

text \<open>
  A parser class is its constructor, called with the source file, the output directory
  and keyword arguments. A module is the table of the classes it defines. A class object
  is truthy, so \<^verbatim>\<open>if not parser_class\<close> asks whether the remote lookup gave \<^verbatim>\<open>None\<close>.
\<close>

type_synonym 'w pyclass =
  "string \<Rightarrow> string \<Rightarrow> (string \<times> pyval) list \<Rightarrow> 'w \<Rightarrow> (exn + (string \<Rightarrow> 'w attr option)) \<times> 'w"

type_synonym 'w pymodule = "string \<Rightarrow> 'w pyclass option"

text \<open>
  The collaborators outside the repository: \<^verbatim>\<open>tempfile.gettempdir()\<close>; the S3 client
  (\<^verbatim>\<open>boto3.client('s3')\<close> and its \<^verbatim>\<open>download_file(bucket, key, path)\<close>); loading a module
  from a file (\<^verbatim>\<open>spec_from_file_location\<close>, \<^verbatim>\<open>module_from_spec\<close>, \<^verbatim>\<open>exec_module\<close>);
  \<^verbatim>\<open>importlib.import_module\<close>; and the attributes of the object \<^verbatim>\<open>False\<close>.
\<close>

record 'w env =
  gettempdir :: string
  download_file :: "pyval \<Rightarrow> string \<Rightarrow> string \<Rightarrow> 'w \<Rightarrow> (exn + unit) \<times> 'w"
  exec_module :: "string \<Rightarrow> string \<Rightarrow> 'w \<Rightarrow> (exn + 'w pymodule) \<times> 'w"
  import_module :: "string \<Rightarrow> 'w \<Rightarrow> (exn + 'w pymodule) \<times> 'w"
  bool_attrs :: "string \<Rightarrow> 'w attr option"

text \<open>
  \<^verbatim>\<open>try: ... except Exception: handler\<close>, applied to the outcome of the \<^verbatim>\<open>try\<close> block.
\<close>

definition except_Exception ::
  "(exn + 'a) \<times> 'w \<Rightarrow> ('w \<Rightarrow> (exn + 'a) \<times> 'w) \<Rightarrow> (exn + 'a) \<times> 'w" where
  "except_Exception r handler =
     (case r of
        (Inl e, w') \<Rightarrow> if is_Exception e then handler w' else (Inl e, w')
      | (Inr v, w') \<Rightarrow> (Inr v, w'))"

text \<open>\<^verbatim>\<open>x[k]\<close> with a string key: only a dict can be subscripted so.\<close>

fun subscript :: "pyval \<Rightarrow> string \<Rightarrow> exn + pyval" where
  "subscript (PDict kvs) k = (case map_of kvs k of None \<Rightarrow> Inl KeyError | Some v \<Rightarrow> Inr v)"
| "subscript _ k = Inl TypeError"

fun truthy :: "pyval \<Rightarrow> bool" where
  "truthy PNone = False"
| "truthy (PBool b) = b"
| "truthy (PInt i) = (i \<noteq> 0)"
| "truthy (PStr s) = (s \<noteq> [])"
| "truthy (PList xs) = (xs \<noteq> [])"
| "truthy (PDict kvs) = (kvs \<noteq> [])"
| "truthy (PObject b) = b"

fun call_attr ::
  "'w attr \<Rightarrow> pyval list \<Rightarrow> (string \<times> pyval) list \<Rightarrow> 'w \<Rightarrow> (exn + pyval) \<times> 'w" where
  "call_attr (Callable f) args kwargs w = f args kwargs w"
| "call_attr (FalsyCallable f) args kwargs w = f args kwargs w"
| "call_attr (Data v) args kwargs w = (Inl TypeError, w)"

text \<open>
  \<^verbatim>\<open>callable(m)\<close> and the truth value of \<^verbatim>\<open>m\<close>, for \<^verbatim>\<open>m = getattr(x, name, None)\<close>:
  \<open>None\<close> is the default of the lookup.
\<close>

fun callable :: "'w attr option \<Rightarrow> bool" where
  "callable (Some (Callable f)) = True"
| "callable (Some (FalsyCallable f)) = True"
| "callable (Some (Data v)) = False"
| "callable None = False"

fun attr_truthy :: "'w attr option \<Rightarrow> bool" where
  "attr_truthy (Some (Callable f)) = True"
| "attr_truthy (Some (FalsyCallable f)) = False"
| "attr_truthy (Some (Data v)) = truthy v"
| "attr_truthy None = False"

fun py_getattr :: "'w env \<Rightarrow> 'w pyobj \<Rightarrow> string \<Rightarrow> 'w attr option" where
  "py_getattr env (ObjInstance attrs) name = attrs name"
| "py_getattr env ObjFalse name = bool_attrs env name"
| "py_getattr env ObjNone name = None"

subsection \<open>utils/file_manager.py\<close>

definition download_from_s3 ::
  "'w env \<Rightarrow> string \<Rightarrow> pyval \<Rightarrow> 'w \<Rightarrow> (exn + string) \<times> 'w" where
  "download_from_s3 env parser_file_name kwargs w =
     except_Exception
       (case subscript kwargs ''scripts_bucket'' of
          Inl e \<Rightarrow> (Inl e, w)
        | Inr bucket_name \<Rightarrow>
            (case subscript kwargs ''scripts_path'' of
               Inl e \<Rightarrow> (Inl e, w)
             | Inr (PStr scripts_path) \<Rightarrow>
                 (let object_key = scripts_path @ parser_file_name @ ''.py'';
                      filename = basename object_key;
                      local_path = path_join (gettempdir env) (''s3_download_'' @ filename)
                  in case download_file env bucket_name object_key local_path w of
                       (Inl e, w') \<Rightarrow> (Inl e, w')
                     | (Inr u, w') \<Rightarrow> (Inr local_path, w'))
             | Inr _ \<Rightarrow> (Inl TypeError, w)))
       (\<lambda>w'. (Inl GenericException, w'))"

text \<open>The \<^verbatim>\<open>try\<close> block of \<^verbatim>\<open>load_parser_from_s3\<close>, and the function with its handler.\<close>

definition remote_attempt ::
  "'w env \<Rightarrow> string \<Rightarrow> string \<Rightarrow> pyval \<Rightarrow> 'w \<Rightarrow> (exn + 'w pyclass option) \<times> 'w" where
  "remote_attempt env parser_file_name class_name kwargs w =
     (case download_from_s3 env ''base_parser'' kwargs w of
        (Inl e, w1) \<Rightarrow> (Inl e, w1)
      | (Inr base_path, w1) \<Rightarrow>
          (case download_from_s3 env parser_file_name kwargs w1 of
             (Inl e, w2) \<Rightarrow> (Inl e, w2)
           | (Inr local_file_path, w2) \<Rightarrow>
               (let module_name = ''s3_parser_'' @ py_replace ''.py'' [] (basename local_file_path)
                in case exec_module env module_name local_file_path w2 of
                     (Inl e, w3) \<Rightarrow> (Inl e, w3)
                   | (Inr module, w3) \<Rightarrow> (Inr (module class_name), w3))))"

definition load_parser_from_s3 ::
  "'w env \<Rightarrow> string \<Rightarrow> string \<Rightarrow> pyval \<Rightarrow> 'w \<Rightarrow> (exn + 'w pyclass option) \<times> 'w" where
  "load_parser_from_s3 env parser_file_name class_name kwargs w =
     except_Exception (remote_attempt env parser_file_name class_name kwargs w)
       (\<lambda>w'. (Inr None, w'))"

subsection \<open>job.runner.py: \<^verbatim>\<open>create_parser\<close> and \<^verbatim>\<open>execute_transformation\<close>\<close>

text \<open>
  The first \<^verbatim>\<open>try\<close> block of \<^verbatim>\<open>create_parser\<close>. \<^verbatim>\<open>s3_to_local\<close> calls \<^verbatim>\<open>.replace\<close>
  on its argument, which only a string has.
\<close>

definition resolve_paths :: "pyval \<Rightarrow> exn + string \<times> string \<times> pyval" where
  "resolve_paths obj =
     (case subscript obj ''origin'' of
        Inl e \<Rightarrow> Inl e
      | Inr (PStr origin) \<Rightarrow>
          (case subscript obj ''destiny'' of
             Inl e \<Rightarrow> Inl e
           | Inr (PStr destiny) \<Rightarrow>
               (case subscript obj ''classname'' of
                  Inl e \<Rightarrow> Inl e
                | Inr parser_class_name \<Rightarrow>
                    Inr (s3_to_local origin, s3_to_local destiny, parser_class_name))
           | Inr _ \<Rightarrow> Inl AttributeError)
      | Inr _ \<Rightarrow> Inl AttributeError)"

definition instantiate ::
  "'w pyclass \<Rightarrow> string \<Rightarrow> string \<Rightarrow> (string \<times> pyval) list \<Rightarrow> 'w \<Rightarrow> (exn + 'w pyobj) \<times> 'w" where
  "instantiate parser_class src out options w =
     (case parser_class src out options w of
        (Inl e, w') \<Rightarrow> (Inl e, w')
      | (Inr attrs, w') \<Rightarrow> (Inr (ObjInstance attrs), w'))"

text \<open>
  The local branch of \<^verbatim>\<open>create_parser\<close>: import \<^verbatim>\<open>parsers.<module_name>\<close>, take the
  class by its name, call it with \<^verbatim>\<open>**options\<close>; each of the three handlers returns
  \<^verbatim>\<open>None\<close>.
\<close>

definition local_parser ::
  "'w env \<Rightarrow> string \<Rightarrow> string \<Rightarrow> string \<Rightarrow> string \<Rightarrow> pyval \<Rightarrow> 'w \<Rightarrow> (exn + 'w pyobj) \<times> 'w" where
  "local_parser env module_name parser_class_name src out options w =
     except_Exception
       (case import_module env (''parsers.'' @ module_name) w of
          (Inl e, w1) \<Rightarrow> (Inl e, w1)
        | (Inr module, w1) \<Rightarrow>
            (case module parser_class_name of
               None \<Rightarrow> (Inl AttributeError, w1)
             | Some parser_class \<Rightarrow>
                 (case options of
                    PDict kwargs \<Rightarrow> instantiate parser_class src out kwargs w1
                  | _ \<Rightarrow> (Inl TypeError, w1))))
       (\<lambda>w'. (Inr ObjNone, w'))"

definition create_parser ::
  "'w env \<Rightarrow> pyval \<Rightarrow> pyval \<Rightarrow> 'w \<Rightarrow> (exn + 'w pyobj) \<times> 'w" where
  "create_parser env obj options w =
     (case resolve_paths obj of
        Inl e \<Rightarrow> if is_Exception e then (Inr ObjFalse, w) else (Inl e, w)
      | Inr (src, out, PStr parser_class_name) \<Rightarrow>
          (let module_name = camel_to_snake parser_class_name
           in case load_parser_from_s3 env module_name parser_class_name options w of
                (Inl e, w1) \<Rightarrow> (Inl e, w1)
              | (Inr None, w1) \<Rightarrow>
                  local_parser env module_name parser_class_name src out options w1
              | (Inr (Some parser_class), w1) \<Rightarrow>
                  instantiate parser_class src out [] w1)
      | Inr (src, out, _) \<Rightarrow> (Inl TypeError, w))"

text \<open>
  The dispatch of \<^verbatim>\<open>execute_transformation\<close> on a parser that is not \<^verbatim>\<open>None\<close>:
  \<^verbatim>\<open>run_operation\<close> if the object has it, else the member named by the operation, called
  with \<^verbatim>\<open>**options\<close>, else \<^verbatim>\<open>process()\<close>.
\<close>

definition dispatch ::
  "'w env \<Rightarrow> 'w pyobj \<Rightarrow> pyval \<Rightarrow> pyval \<Rightarrow> 'w \<Rightarrow> (exn + bool) \<times> 'w" where
  "dispatch env parser operation_name options w =
     (case py_getattr env parser ''run_operation'' of
        Some run_op \<Rightarrow>
          (case call_attr run_op [operation_name] [] w of
             (Inl e, w') \<Rightarrow> (Inl e, w')
           | (Inr result, w') \<Rightarrow> (Inr (result \<noteq> PBool False), w'))
      | None \<Rightarrow>
          (case operation_name of
             PStr name \<Rightarrow>
               (case py_getattr env parser name of
                  Some method \<Rightarrow>
                    (case options of
                       PDict kwargs \<Rightarrow>
                         (case call_attr method [] kwargs w of
                            (Inl e, w') \<Rightarrow> (Inl e, w')
                          | (Inr r, w') \<Rightarrow> (Inr True, w'))
                     | _ \<Rightarrow> (Inl TypeError, w))
                | None \<Rightarrow>
                    (case py_getattr env parser ''process'' of
                       None \<Rightarrow> (Inl AttributeError, w)
                     | Some process \<Rightarrow>
                         (case call_attr process [] [] w of
                            (Inl e, w') \<Rightarrow> (Inl e, w')
                          | (Inr r, w') \<Rightarrow> (Inr True, w'))))
           | _ \<Rightarrow> (Inl TypeError, w)))"

definition execute_transformation ::
  "'w env \<Rightarrow> pyval \<Rightarrow> pyval \<Rightarrow> pyval \<Rightarrow> 'w \<Rightarrow> (exn + bool) \<times> 'w" where
  "execute_transformation env obj operation_name options w =
     except_Exception
       (case create_parser env obj options w of
          (Inl e, w1) \<Rightarrow> (Inl e, w1)
        | (Inr ObjNone, w1) \<Rightarrow> (Inr False, w1)
        | (Inr parser, w1) \<Rightarrow> dispatch env parser operation_name options w1)
       (\<lambda>w'. (Inr False, w'))"

subsection \<open>job.runner.py: \<^verbatim>\<open>run_job\<close>\<close>









subsection \<open>parsers/base_parser.py\<close>

text \<open>
  An instance of a subclass of \<^verbatim>\<open>BaseParser\<close>: the two fields \<^verbatim>\<open>__init__\<close> sets, what
  \<^verbatim>\<open>get_available_operations()\<close> returns, and the members the subclass defines.
\<close>

record 'w base_parser =
  source_file :: string
  output_directory :: string
  get_available_operations :: "string list"
  members :: "string \<Rightarrow> 'w attr option"

text \<open>A method without parameters, and one with a single parameter of the given name.\<close>

definition nullary ::
  "('w \<Rightarrow> (exn + pyval) \<times> 'w) \<Rightarrow> pyval list \<Rightarrow> (string \<times> pyval) list \<Rightarrow> 'w \<Rightarrow> (exn + pyval) \<times> 'w" where
  "nullary body args kwargs w = (if args = [] \<and> kwargs = [] then body w else (Inl TypeError, w))"

definition unary ::
  "string \<Rightarrow> (pyval \<Rightarrow> 'w \<Rightarrow> (exn + pyval) \<times> 'w) \<Rightarrow> pyval list \<Rightarrow> (string \<times> pyval) list
     \<Rightarrow> 'w \<Rightarrow> (exn + pyval) \<times> 'w" where
  "unary param body args kwargs w =
     (case (args, kwargs) of
        ([v], []) \<Rightarrow> body v w
      | ([], [(k, v)]) \<Rightarrow> if k = param then body v w else (Inl TypeError, w)
      | _ \<Rightarrow> (Inl TypeError, w))"

text \<open>The attributes of the instance other than \<^verbatim>\<open>run_operation\<close>.\<close>

definition own_attrs :: "'w base_parser \<Rightarrow> string \<Rightarrow> 'w attr option" where
  "own_attrs self =
     (members self)
       (''get_available_operations'' \<mapsto>
           Callable (nullary (\<lambda>w. (Inr (PList (map PStr (get_available_operations self))), w))),
        ''source_file'' \<mapsto> Data (PStr (source_file self)),
        ''output_directory'' \<mapsto> Data (PStr (output_directory self)))"

text \<open>
  \<^verbatim>\<open>BaseParser.run_operation\<close>: the membership test, then
  \<^verbatim>\<open>method = getattr(self, operation_name, None)\<close> and the test
  \<^verbatim>\<open>if method and callable(method)\<close>. Looked up under its own name, the member is the
  bound \<^verbatim>\<open>run_operation\<close>, and calling it without its argument raises \<^verbatim>\<open>TypeError\<close>.
\<close>

definition run_operation ::
  "'w base_parser \<Rightarrow> pyval \<Rightarrow> 'w \<Rightarrow> (exn + pyval) \<times> 'w" where
  "run_operation self operation_name w =
     (case operation_name of
        PStr name \<Rightarrow>
          if name \<notin> set (get_available_operations self) then (Inl ValueError, w)
          else if name = ''run_operation'' then (Inl TypeError, w)
          else (let method = own_attrs self name
                in if attr_truthy method \<and> callable method
                   then (case method of
                           Some m \<Rightarrow> call_attr m [] [] w
                         | None \<Rightarrow> (Inl NotImplementedError, w))
                   else (Inl NotImplementedError, w))
      | _ \<Rightarrow> (Inl ValueError, w))"

definition instance_attrs :: "'w base_parser \<Rightarrow> string \<Rightarrow> 'w attr option" where
  "instance_attrs self =
     (own_attrs self)(''run_operation'' \<mapsto> Callable (unary ''operation_name'' (run_operation self)))"

text \<open>
  \<^verbatim>\<open>BaseParser.__init__(self, source_file, output_directory, **options)\<close>, called with
  two positional arguments: a keyword that names a parameter again is a \<^verbatim>\<open>TypeError\<close>.
\<close>

definition BaseParser_init ::
  "(string \<Rightarrow> string \<Rightarrow> 'w base_parser) \<Rightarrow> 'w pyclass" where
  "BaseParser_init cls src out options w =
     (if \<exists>k \<in> set (map fst options). k \<in> {''self'', ''source_file'', ''output_directory''}
      then (Inl TypeError, w)
      else (Inr (instance_attrs (cls src out)), w))"

subsection \<open>parsers/zip_file_parser.py and parsers/xml_to_csv_parser.py\<close>

text \<open>
  The library calls of the two builtin parsers: \<^verbatim>\<open>os.makedirs(path, exist_ok=True)\<close>;
  opening an archive and \<^verbatim>\<open>extractall\<close> (with a password or without); \<^verbatim>\<open>ET.parse\<close>,
  giving for each child of the root its children's tags and texts; and writing the rows
  of a CSV file.
\<close>

type_synonym xml_root = "(string \<times> string option) list list"

record 'w fs =
  makedirs :: "string \<Rightarrow> 'w \<Rightarrow> (exn + unit) \<times> 'w"
  zip_extractall :: "string \<Rightarrow> string \<Rightarrow> string option \<Rightarrow> 'w \<Rightarrow> (exn + unit) \<times> 'w"
  xml_parse :: "string \<Rightarrow> 'w \<Rightarrow> (exn + xml_root) \<times> 'w"
  csv_write :: "string \<Rightarrow> string list list \<Rightarrow> 'w \<Rightarrow> (exn + unit) \<times> 'w"

definition unzip :: "'w fs \<Rightarrow> string \<Rightarrow> string \<Rightarrow> pyval \<Rightarrow> 'w \<Rightarrow> (exn + pyval) \<times> 'w" where
  "unzip fs src out password w =
     except_Exception
       (case makedirs fs out w of
          (Inl e, w1) \<Rightarrow> (Inl e, w1)
        | (Inr u, w1) \<Rightarrow>
            (case (if truthy password
                   then (case password of
                           PStr p \<Rightarrow> zip_extractall fs src out (Some p) w1
                         | _ \<Rightarrow> (Inl AttributeError, w1))
                   else zip_extractall fs src out None w1) of
               (Inl e, w2) \<Rightarrow> (Inl e, w2)
             | (Inr u, w2) \<Rightarrow> (Inr (PBool True), w2)))
       (\<lambda>w'. (Inr (PBool False), w'))"

text \<open>\<^verbatim>\<open>unzip(self, password=None)\<close> as a member.\<close>

definition unzip_method ::
  "'w fs \<Rightarrow> string \<Rightarrow> string \<Rightarrow> pyval list \<Rightarrow> (string \<times> pyval) list \<Rightarrow> 'w \<Rightarrow> (exn + pyval) \<times> 'w" where
  "unzip_method fs src out args kwargs w =
     (if args = [] \<and> kwargs = [] then unzip fs src out PNone w
      else unary ''password'' (unzip fs src out) args kwargs w)"

definition ZipFileParser :: "'w fs \<Rightarrow> string \<Rightarrow> string \<Rightarrow> 'w base_parser" where
  "ZipFileParser fs src out =
     \<lparr> source_file = src, output_directory = out,
       get_available_operations = [''unzip''],
       members = map_of
         [(''process'', Callable (nullary (unzip fs src out PNone))),
          (''unzip'', Callable (unzip_method fs src out))] \<rparr>"

definition csv_name :: "string \<Rightarrow> string" where
  "csv_name src = py_replace ''.xml'' ''.csv'' (basename src)"

definition xml_to_csv :: "'w fs \<Rightarrow> string \<Rightarrow> string \<Rightarrow> 'w \<Rightarrow> (exn + pyval) \<times> 'w" where
  "xml_to_csv fs src out w =
     except_Exception
       (case xml_parse fs src w of
          (Inl e, w1) \<Rightarrow> (Inl e, w1)
        | (Inr root, w1) \<Rightarrow>
            (case makedirs fs out w1 of
               (Inl e, w2) \<Rightarrow> (Inl e, w2)
             | (Inr u, w2) \<Rightarrow>
                 (let output_path = path_join out (csv_name src)
                  in if length root > 0
                     then (case csv_write fs output_path
                                  (map fst (hd root)
                                   # map (map (\<lambda>(tag, text). case text of None \<Rightarrow> [] | Some t \<Rightarrow> t)) root) w2 of
                             (Inl e, w3) \<Rightarrow> (Inl e, w3)
                           | (Inr u, w3) \<Rightarrow> (Inr (PBool True), w3))
                     else (case csv_write fs output_path [] w2 of
                             (Inl e, w3) \<Rightarrow> (Inl e, w3)
                           | (Inr u, w3) \<Rightarrow> (Inr (PBool False), w3)))))
       (\<lambda>w'. (Inr (PBool False), w'))"

definition XmlToCsvParser :: "'w fs \<Rightarrow> string \<Rightarrow> string \<Rightarrow> 'w base_parser" where
  "XmlToCsvParser fs src out =
     \<lparr> source_file = src, output_directory = out,
       get_available_operations = [''xml_to_csv''],
       members = map_of
         [(''process'', Callable (nullary (xml_to_csv fs src out))),
          (''xml_to_csv'', Callable (nullary (xml_to_csv fs src out)))] \<rparr>"

text \<open>
  The \<^verbatim>\<open>parsers\<close> package of the repository as \<^verbatim>\<open>import_module\<close> finds it. Each module
  also holds the abstract \<^verbatim>\<open>BaseParser\<close>, which cannot be instantiated.
\<close>

definition parsers_package :: "'w fs \<Rightarrow> string \<Rightarrow> 'w \<Rightarrow> (exn + 'w pymodule) \<times> 'w" where
  "parsers_package fs name w =
     (if name = ''parsers.zip_file_parser''
      then (Inr (map_of [(''ZipFileParser'', BaseParser_init (ZipFileParser fs)),
                         (''BaseParser'', \<lambda>src out options w'. (Inl TypeError, w'))]), w)
      else if name = ''parsers.xml_to_csv_parser''
      then (Inr (map_of [(''XmlToCsvParser'', BaseParser_init (XmlToCsvParser fs)),
                         (''BaseParser'', \<lambda>src out options w'. (Inl TypeError, w'))]), w)
      else if name = ''parsers.base_parser''
      then (Inr (map_of [(''BaseParser'', \<lambda>src out options w'. (Inl TypeError, w'))]), w)
      else (Inl ImportError, w))"

subsection \<open>A sample installation\<close>

text \<open>
  A small installation to run the engine on. The state is the list of the files that
  exist. An archive that exists unpacks to one file \<open>a.xml\<close>; an XML file that exists
  parses to one row.
\<close>

definition sample_fs :: "(string list) fs" where
  "sample_fs =
     \<lparr> makedirs = (\<lambda>path files. (Inr (), files)),
       zip_extractall = (\<lambda>src out pwd files.
          if src \<in> set files then (Inr (), path_join out ''a.xml'' # files)
          else (Inl FileNotFoundError, files)),
       xml_parse = (\<lambda>src files.
          if src \<in> set files then (Inr [[(''id'', Some ''1'')]], files)
          else (Inl FileNotFoundError, files)),
       csv_write = (\<lambda>path rows files. (Inr (), path # files)) \<rparr>"

text \<open>
  The attributes of \<^verbatim>\<open>False\<close>, as CPython 3.11 (64-bit) has them: the names of
  \<^verbatim>\<open>dir(False)\<close>, and for each what a call without positional arguments does, which is
  the only call the executor makes on \<^verbatim>\<open>False\<close> (a call with positional arguments is
  given \<^verbatim>\<open>TypeError\<close> here). Only \<^verbatim>\<open>__init__\<close>, \<^verbatim>\<open>to_bytes\<close> and \<^verbatim>\<open>from_bytes\<close> take
  keyword arguments.
\<close>

definition False_attr_names :: "string list" where
  "False_attr_names =
     [''__abs__'', ''__add__'', ''__and__'', ''__bool__'',
      ''__ceil__'', ''__class__'', ''__delattr__'', ''__dir__'',
      ''__divmod__'', ''__doc__'', ''__eq__'', ''__float__'',
      ''__floor__'', ''__floordiv__'', ''__format__'', ''__ge__'',
      ''__getattribute__'', ''__getnewargs__'', ''__getstate__'', ''__gt__'',
      ''__hash__'', ''__index__'', ''__init__'', ''__init_subclass__'',
      ''__int__'', ''__invert__'', ''__le__'', ''__lshift__'',
      ''__lt__'', ''__mod__'', ''__mul__'', ''__ne__'',
      ''__neg__'', ''__new__'', ''__or__'', ''__pos__'',
      ''__pow__'', ''__radd__'', ''__rand__'', ''__rdivmod__'',
      ''__reduce__'', ''__reduce_ex__'', ''__repr__'', ''__rfloordiv__'',
      ''__rlshift__'', ''__rmod__'', ''__rmul__'', ''__ror__'',
      ''__round__'', ''__rpow__'', ''__rrshift__'', ''__rshift__'',
      ''__rsub__'', ''__rtruediv__'', ''__rxor__'', ''__setattr__'',
      ''__sizeof__'', ''__str__'', ''__sub__'', ''__subclasshook__'',
      ''__truediv__'', ''__trunc__'', ''__xor__'', ''as_integer_ratio'',
      ''bit_count'', ''bit_length'', ''conjugate'', ''denominator'',
      ''from_bytes'', ''imag'', ''numerator'', ''real'',
      ''to_bytes'']"

text \<open>A member that returns a value and takes no argument, and one that needs an operand.\<close>

definition returning ::
  "pyval \<Rightarrow> pyval list \<Rightarrow> (string \<times> pyval) list \<Rightarrow> 'w \<Rightarrow> (exn + pyval) \<times> 'w" where
  "returning v args kwargs w = (if args = [] \<and> kwargs = [] then (Inr v, w) else (Inl TypeError, w))"

definition needs_operand ::
  "pyval list \<Rightarrow> (string \<times> pyval) list \<Rightarrow> 'w \<Rightarrow> (exn + pyval) \<times> 'w" where
  "needs_operand args kwargs w = (Inl TypeError, w)"

definition keywords_only ::
  "((string \<times> pyval) list \<Rightarrow> exn + pyval) \<Rightarrow> pyval list \<Rightarrow> (string \<times> pyval) list \<Rightarrow> 'w
     \<Rightarrow> (exn + pyval) \<times> 'w" where
  "keywords_only f args kwargs w = (if args = [] then (f kwargs, w) else (Inl TypeError, w))"

text \<open>An argument read through \<^verbatim>\<open>__index__\<close>: an integer or a boolean.\<close>

fun int_like :: "pyval \<Rightarrow> int option" where
  "int_like (PInt n) = Some n"
| "int_like (PBool b) = Some (if b then 1 else 0)"
| "int_like _ = None"

text \<open>The \<^verbatim>\<open>byteorder\<close> argument: a string, \<^verbatim>\<open>'big'\<close> when absent.\<close>

definition byteorder_arg :: "(string \<times> pyval) list \<Rightarrow> string option" where
  "byteorder_arg kwargs =
     (case map_of kwargs ''byteorder'' of
        None \<Rightarrow> Some ''big''
      | Some (PStr s) \<Rightarrow> Some s
      | Some _ \<Rightarrow> None)"

text \<open>
  \<^verbatim>\<open>False.to_bytes(length=1, byteorder='big', *, signed=False)\<close>: the arguments are parsed
  (\<open>length\<close> into a signed 64-bit size), then the byte order and the sign of the length are
  checked, then \<open>length\<close> zero bytes are allocated. \<open>alloc\<close> is the largest size the
  machine can allocate; a bytes object has a header of 33 bytes, so a length above
  \<open>2\<^sup>6\<^sup>3 - 34\<close> is refused before the allocation.
\<close>

definition False_to_bytes :: "int \<Rightarrow> (string \<times> pyval) list \<Rightarrow> exn + pyval" where
  "False_to_bytes alloc kwargs =
     (if \<exists>k \<in> set (map fst kwargs). k \<notin> {''length'', ''byteorder'', ''signed''} then Inl TypeError
      else case (case map_of kwargs ''length'' of None \<Rightarrow> Some 1 | Some v \<Rightarrow> int_like v) of
             None \<Rightarrow> Inl TypeError
           | Some n \<Rightarrow>
               if n < - 9223372036854775808 \<or> 9223372036854775808 \<le> n then Inl OverflowError
               else (case byteorder_arg kwargs of
                       None \<Rightarrow> Inl TypeError
                     | Some order \<Rightarrow>
                         if order \<noteq> ''little'' \<and> order \<noteq> ''big'' then Inl ValueError
                         else if n < 0 then Inl ValueError
                         else if 9223372036854775774 < n then Inl OverflowError
                         else if alloc < n then Inl MemoryError
                         else Inr (PObject (n \<noteq> 0))))"

text \<open>The bytes an iterable of integers gives: each must lie in 0 to 255.\<close>

fun byte_values :: "pyval list \<Rightarrow> exn + int list" where
  "byte_values [] = Inr []"
| "byte_values (x # xs) =
     (case int_like x of
        None \<Rightarrow> Inl TypeError
      | Some n \<Rightarrow>
          if n < 0 \<or> 255 < n then Inl ValueError
          else (case byte_values xs of Inl e \<Rightarrow> Inl e | Inr ns \<Rightarrow> Inr (n # ns)))"

text \<open>
  \<^verbatim>\<open>False.from_bytes(bytes, byteorder='big', *, signed=False)\<close>, a class method of
  \<^verbatim>\<open>bool\<close>: the result is whether the integer read is not zero.
\<close>

definition False_from_bytes :: "(string \<times> pyval) list \<Rightarrow> exn + pyval" where
  "False_from_bytes kwargs =
     (if \<exists>k \<in> set (map fst kwargs). k \<notin> {''bytes'', ''byteorder'', ''signed''} then Inl TypeError
      else case map_of kwargs ''bytes'' of
             None \<Rightarrow> Inl TypeError
           | Some b \<Rightarrow>
               (case byteorder_arg kwargs of
                  None \<Rightarrow> Inl TypeError
                | Some order \<Rightarrow>
                    if order \<noteq> ''little'' \<and> order \<noteq> ''big'' then Inl ValueError
                    else (case b of
                            PList xs \<Rightarrow>
                              (case byte_values xs of
                                 Inl e \<Rightarrow> Inl e
                               | Inr ns \<Rightarrow> Inr (PBool (\<exists>n \<in> set ns. n \<noteq> 0)))
                          | PDict [] \<Rightarrow> Inr (PBool False)
                          | _ \<Rightarrow> Inl TypeError)))"

definition False_attrs :: "int \<Rightarrow> string \<Rightarrow> 'w attr option" where
  "False_attrs alloc =
     map_of
       [(''__abs__'', Callable (returning (PInt 0))),
        (''__add__'', Callable needs_operand),
        (''__and__'', Callable needs_operand),
        (''__bool__'', Callable (returning (PBool False))),
        (''__ceil__'', Callable (returning (PInt 0))),
        (''__class__'', Callable (returning (PBool False))),
        (''__delattr__'', Callable needs_operand),
        (''__dir__'', Callable (returning (PList (map PStr False_attr_names)))),
        (''__divmod__'', Callable needs_operand),
        (''__doc__'', Data (PStr (''bool(x) -> bool'' @ [CHR 0x0A] @ [CHR 0x0A] @ ''Returns True when the argument x is true, False otherwise.'' @ [CHR 0x0A] @ ''The builtins True and False are the only two instances of the class bool.'' @ [CHR 0x0A] @ ''The class bool is a subclass of the class int, and cannot be subclassed.''))),
        (''__eq__'', Callable needs_operand),
        (''__float__'', Callable (returning (PObject False))),
        (''__floor__'', Callable (returning (PInt 0))),
        (''__floordiv__'', Callable needs_operand),
        (''__format__'', Callable needs_operand),
        (''__ge__'', Callable needs_operand),
        (''__getattribute__'', Callable needs_operand),
        (''__getnewargs__'', Callable (returning (PObject True))),
        (''__getstate__'', Callable (returning PNone)),
        (''__gt__'', Callable needs_operand),
        (''__hash__'', Callable (returning (PInt 0))),
        (''__index__'', Callable (returning (PInt 0))),
        (''__init__'', Callable (\<lambda>args kwargs w. (Inr PNone, w))),
        (''__init_subclass__'', Callable (returning PNone)),
        (''__int__'', Callable (returning (PInt 0))),
        (''__invert__'', Callable (returning (PInt (-1)))),
        (''__le__'', Callable needs_operand),
        (''__lshift__'', Callable needs_operand),
        (''__lt__'', Callable needs_operand),
        (''__mod__'', Callable needs_operand),
        (''__mul__'', Callable needs_operand),
        (''__ne__'', Callable needs_operand),
        (''__neg__'', Callable (returning (PInt 0))),
        (''__new__'', Callable needs_operand),
        (''__or__'', Callable needs_operand),
        (''__pos__'', Callable (returning (PInt 0))),
        (''__pow__'', Callable needs_operand),
        (''__radd__'', Callable needs_operand),
        (''__rand__'', Callable needs_operand),
        (''__rdivmod__'', Callable needs_operand),
        (''__reduce__'', Callable needs_operand),
        (''__reduce_ex__'', Callable needs_operand),
        (''__repr__'', Callable (returning (PStr ''False''))),
        (''__rfloordiv__'', Callable needs_operand),
        (''__rlshift__'', Callable needs_operand),
        (''__rmod__'', Callable needs_operand),
        (''__rmul__'', Callable needs_operand),
        (''__ror__'', Callable needs_operand),
        (''__round__'', Callable (returning (PInt 0))),
        (''__rpow__'', Callable needs_operand),
        (''__rrshift__'', Callable needs_operand),
        (''__rshift__'', Callable needs_operand),
        (''__rsub__'', Callable needs_operand),
        (''__rtruediv__'', Callable needs_operand),
        (''__rxor__'', Callable needs_operand),
        (''__setattr__'', Callable needs_operand),
        (''__sizeof__'', Callable (returning (PInt 28))),
        (''__str__'', Callable (returning (PStr ''False''))),
        (''__sub__'', Callable needs_operand),
        (''__subclasshook__'', Callable (returning (PObject True))),
        (''__truediv__'', Callable needs_operand),
        (''__trunc__'', Callable (returning (PInt 0))),
        (''__xor__'', Callable needs_operand),
        (''as_integer_ratio'', Callable (returning (PObject True))),
        (''bit_count'', Callable (returning (PInt 0))),
        (''bit_length'', Callable (returning (PInt 0))),
        (''conjugate'', Callable (returning (PInt 0))),
        (''denominator'', Data (PInt 1)),
        (''from_bytes'', Callable (keywords_only False_from_bytes)),
        (''imag'', Data (PInt 0)),
        (''numerator'', Data (PInt 0)),
        (''real'', Data (PInt 0)),
        (''to_bytes'', Callable (keywords_only (False_to_bytes alloc)))]"

text \<open>Without credentials: every download fails, only the local package resolves.\<close>

definition sample_env :: "(string list) env" where
  "sample_env =
     \<lparr> gettempdir = ''/tmp'',
       download_file = (\<lambda>bucket key path files. (Inl NoCredentialsError, files)),
       exec_module = (\<lambda>name path files. (Inl FileNotFoundError, files)),
       import_module = parsers_package sample_fs,
       bool_attrs = False_attrs 4294967296 \<rparr>"

text \<open>
  Two custom parsers in the scripts bucket, written without \<^verbatim>\<open>BaseParser\<close>:
  \<^verbatim>\<open>CustomParser\<close> keeps its constructor's arguments and has a \<^verbatim>\<open>process(self, **kwargs)\<close>
  that returns \<^verbatim>\<open>None\<close>; the \<^verbatim>\<open>process(self, **kwargs)\<close> of \<^verbatim>\<open>ExitParser\<close> calls
  \<^verbatim>\<open>sys.exit()\<close>.
\<close>

definition CustomParser :: "'w pyclass" where
  "CustomParser src out options w =
     (Inr (map_of
        [(''source_file'', Data (PStr src)),
         (''output_directory'', Data (PStr out)),
         (''options'', Data (PDict options)),
         (''process'', Callable (\<lambda>args kwargs w'. if args = [] then (Inr PNone, w') else (Inl TypeError, w')))]), w)"

definition ExitParser :: "'w pyclass" where
  "ExitParser src out options w =
     (Inr (map_of
        [(''process'', Callable (\<lambda>args kwargs w'. if args = [] then (Inl SystemExit, w') else (Inl TypeError, w')))]), w)"

definition remote_env :: "(string list) env" where
  "remote_env =
     \<lparr> gettempdir = ''/tmp'',
       download_file = (\<lambda>bucket key path files. (Inr (), path # files)),
       exec_module = (\<lambda>name path files.
          if path = ''/tmp/s3_download_custom_parser.py''
          then (Inr (map_of [(''CustomParser'', CustomParser)]), files)
          else if path = ''/tmp/s3_download_exit_parser.py''
          then (Inr (map_of [(''ExitParser'', ExitParser)]), files)
          else (Inr Map.empty, files)),
       import_module = parsers_package sample_fs,
       bool_attrs = False_attrs 4294967296 \<rparr>"

text \<open>
  Three variations of it: the bucket holds \<open>base_parser.py\<close> and no other script; every
  script in the bucket fails while it is loaded (a syntax error, say); every script calls
  \<^verbatim>\<open>sys.exit()\<close> while it is loaded.
\<close>

definition missing_object_env :: "(string list) env" where
  "missing_object_env =
     remote_env\<lparr>download_file := (\<lambda>bucket key path files.
        if key = ''parsers/base_parser.py'' then (Inr (), path # files)
        else (Inl ClientError, files))\<rparr>"

definition broken_script_env :: "(string list) env" where
  "broken_script_env =
     remote_env\<lparr>exec_module := (\<lambda>name path files. (Inl GenericException, files))\<rparr>"

definition aborting_env :: "(string list) env" where
  "aborting_env =
     remote_env\<lparr>exec_module := (\<lambda>name path files. (Inl SystemExit, files))\<rparr>"

definition remote_options :: pyval where
  "remote_options =
     PDict [(''scripts_bucket'', PStr ''scripts''), (''scripts_path'', PStr ''parsers/''),
            (''password'', PStr ''secret'')]"

text \<open>The object of a job entry, an entry without \<^verbatim>\<open>kwargs\<close>, and a job.\<close>

definition job_object :: "string \<Rightarrow> string \<Rightarrow> string \<Rightarrow> string \<Rightarrow> pyval" where
  "job_object origin destiny classname parser =
     PDict [(''origin'', PStr origin), (''destiny'', PStr destiny),
            (''classname'', PStr classname), (''parser'', PStr parser)]"




section \<open>Properties\<close>

subsection \<open>Replacing text\<close>

lemma py_replace_Nil: "old \<noteq> [] \<Longrightarrow> py_replace old new [] = []"
  by (subst py_replace.simps) simp

lemma py_replace_match:
  "old \<noteq> [] \<Longrightarrow> py_replace old new (old @ rest) = new @ py_replace old new rest"
  by (subst py_replace.simps) simp

lemma py_replace_skip:
  "old \<noteq> [] \<Longrightarrow> \<not> prefix old (c # cs) \<Longrightarrow> py_replace old new (c # cs) = c # py_replace old new cs"
  by (subst py_replace.simps) simp

lemma py_replace_absent: "old \<noteq> [] \<Longrightarrow> \<not> occurs_in old s \<Longrightarrow> py_replace old new s = s"
  by (induction s) (auto simp: py_replace_Nil py_replace_skip)

lemma s3_to_local_head:
  assumes "s3_to_local s = c # t" and "c \<noteq> CHR ''s''"
  shows "\<exists>s'. s = c # s' \<and> t = s3_to_local s'"
proof (cases s)
  case Nil
  with assms show ?thesis by (simp add: s3_to_local_def py_replace_Nil)
next
  case (Cons a as)
  show ?thesis
  proof (cases "prefix ''s3://'' s")
    case True
    then obtain rest where "s = ''s3://'' @ rest" by (auto simp: prefix_def)
    with assms show ?thesis by (simp add: s3_to_local_def py_replace_match [of "''s3://''", simplified])
  next
    case False
    with assms Cons show ?thesis by (simp add: s3_to_local_def py_replace_skip)
  qed
qed

lemma prefix_s3_to_local:
  "prefix p (s3_to_local s) \<Longrightarrow> CHR ''s'' \<notin> set p \<Longrightarrow> prefix p s"
proof (induction p arbitrary: s)
  case Nil
  then show ?case by simp
next
  case (Cons a p)
  from Cons.prems obtain t where t: "s3_to_local s = a # t" and pt: "prefix p t"
    by (cases "s3_to_local s") auto
  from Cons.prems have "a \<noteq> CHR ''s''" by auto
  with t obtain s' where s': "s = a # s'" "t = s3_to_local s'"
    using s3_to_local_head by blast
  with pt Cons.prems Cons.IH [of s'] show ?case by simp
qed

lemma no_s3_s3_to_local: "\<not> occurs_in ''s3://'' (s3_to_local s)"
proof (induction s rule: length_induct)
  case (1 s)
  show ?case
  proof (cases "prefix ''s3://'' s")
    case True
    then obtain rest where r: "s = ''s3://'' @ rest" by (auto simp: prefix_def)
    then have "length rest < length s" by simp
    with 1 have "\<not> occurs_in ''s3://'' (s3_to_local rest)" by blast
    moreover have "s3_to_local s = ''s3/'' @ s3_to_local rest"
      using r py_replace_match [of "''s3://''" "''s3/''" rest] by (simp add: s3_to_local_def)
    ultimately show ?thesis by simp
  next
    case False
    show ?thesis
    proof (cases s)
      case Nil
      then show ?thesis by (simp add: s3_to_local_def py_replace_Nil)
    next
      case (Cons c cs)
      with False have eq: "s3_to_local s = c # s3_to_local cs"
        by (simp add: s3_to_local_def py_replace_skip)
      from Cons 1 have ih: "\<not> occurs_in ''s3://'' (s3_to_local cs)" by simp
      have "\<not> prefix ''s3://'' (c # s3_to_local cs)"
      proof
        assume "prefix ''s3://'' (c # s3_to_local cs)"
        then have c: "c = CHR ''s''" and "prefix ''3://'' (s3_to_local cs)" by simp_all
        then have "prefix ''3://'' cs" using prefix_s3_to_local by fastforce
        with c Cons False show False by simp
      qed
      with ih eq show ?thesis by simp
    qed
  qed
qed

subsection \<open>Name conversion\<close>

lemma lower_char_not_upper: "\<not> is_upper (lower_char c)"
  by (auto simp: is_upper_def lower_char_def Let_def)

lemma lower_char_idem: "lower_char (lower_char c) = lower_char c"
  by (auto simp: lower_char_def Let_def)

lemma sub_word_boundary_fixed:
  "\<forall>c\<in>set s. \<not> is_upper c \<Longrightarrow> sub_word_boundary s = s"
  by (induction s rule: sub_word_boundary.induct) auto

lemma sub_lower_upper_fixed:
  "\<forall>c\<in>set s. \<not> is_upper c \<Longrightarrow> sub_lower_upper s = s"
  by (induction s rule: sub_lower_upper.induct) auto

lemma camel_to_snake_fixed:
  assumes "\<forall>c\<in>set s. \<not> is_upper c" and "lower s = s"
  shows "camel_to_snake s = s"
  using assms by (simp add: camel_to_snake_def sub_word_boundary_fixed sub_lower_upper_fixed)

lemma lower_fixed_no_upper:
  assumes "lower s = s"
  shows "\<forall>c\<in>set s. \<not> is_upper c"
proof
  fix c assume "c \<in> set s"
  then have "c \<in> set (lower s)" using assms by simp
  then show "\<not> is_upper c" by (auto simp: lower_def lower_char_not_upper)
qed

text \<open>
  C6. \<open>camel_to_snake\<close> is idempotent: converting a converted name gives the same
  string, and more generally every string that lowercasing leaves unchanged (a name
  already in the lowercase, underscore-separated form) is converted to itself.
\<close>

theorem camel_to_snake_idempotent:
  "camel_to_snake (camel_to_snake x) = camel_to_snake x
   \<and> (lower y = y \<longrightarrow> camel_to_snake y = y)"
proof
  show "camel_to_snake (camel_to_snake x) = camel_to_snake x"
  proof (rule camel_to_snake_fixed)
    show "\<forall>c\<in>set (camel_to_snake x). \<not> is_upper c"
      by (auto simp: camel_to_snake_def lower_def lower_char_not_upper)
    show "lower (camel_to_snake x) = camel_to_snake x"
      by (simp add: camel_to_snake_def lower_def lower_char_idem)
  qed
  show "lower y = y \<longrightarrow> camel_to_snake y = y"
    using camel_to_snake_fixed lower_fixed_no_upper by blast
qed

theorem camel_to_snake_idempotent_witness:
  "camel_to_snake (camel_to_snake ''XmlToCsvParser'') = camel_to_snake ''XmlToCsvParser''
   \<and> lower ''zip_file_parser'' = ''zip_file_parser''
   \<and> camel_to_snake ''zip_file_parser'' = ''zip_file_parser''"
proof -
  have l: "lower ''zip_file_parser'' = ''zip_file_parser''"
    by code_simp
  from camel_to_snake_idempotent [of "''XmlToCsvParser''" "''zip_file_parser''"] l
  show ?thesis by blast
qed

text \<open>
  C7. The class name \<open>HTMLParserV2\<close> is converted to the module name
  \<open>html_parser_v2\<close>: the last capital of the run \<open>HTML\<close> is followed by a lowercase
  letter and starts the next word.
\<close>

theorem camel_to_snake_HTMLParserV2:
  "camel_to_snake ''HTMLParserV2'' = ''html_parser_v2''
   \<and> sub_word_boundary ''HTMLParserV2'' = ''HTML_ParserV2''"
  by code_simp

subsection \<open>Artifact references\<close>

text \<open>
  C9. \<open>s3_to_local\<close> is a function of the reference alone, so equal references give
  equal paths, and it is idempotent: resolving a resolved path changes nothing.
\<close>

theorem s3_to_local_idempotent:
  "s3_to_local (s3_to_local r) = s3_to_local r
   \<and> (r = r' \<longrightarrow> s3_to_local r = s3_to_local r')"
  using py_replace_absent [OF _ no_s3_s3_to_local] by (simp add: s3_to_local_def)

theorem s3_to_local_idempotent_witness:
  "s3_to_local (s3_to_local ''s3://in/a.zip'') = s3_to_local ''s3://in/a.zip''
   \<and> s3_to_local ''s3://in/a.zip'' = ''s3/in/a.zip''"
proof -
  have "s3_to_local ''s3://in/a.zip'' = ''s3/in/a.zip''"
    by code_simp
  with s3_to_local_idempotent [of "''s3://in/a.zip''" "''s3://in/a.zip''"]
  show ?thesis by simp
qed

subsection \<open>Handlers and the local-only path\<close>

lemma except_Exception_Inr [simp]: "except_Exception (Inr v, w) h = (Inr v, w)"
  by (simp add: except_Exception_def)

lemma except_Exception_Inl [simp]:
  "except_Exception (Inl e, w) h = (if is_Exception e then h w else (Inl e, w))"
  by (simp add: except_Exception_def)


lemma subscript_error: "subscript v k = Inl e \<Longrightarrow> is_Exception e"
  by (cases v) (auto split: option.splits)

lemma download_from_s3_no_bucket:
  assumes "subscript kwargs ''scripts_bucket'' = Inl e"
  shows "download_from_s3 env n kwargs w = (Inl GenericException, w)"
  using assms subscript_error [OF assms] by (simp add: download_from_s3_def)

lemma load_parser_from_s3_no_bucket:
  assumes "subscript kwargs ''scripts_bucket'' = Inl e"
  shows "load_parser_from_s3 env m c kwargs w = (Inr None, w)"
  by (simp add: load_parser_from_s3_def remote_attempt_def download_from_s3_no_bucket [OF assms])

lemma create_parser_local_only:
  assumes "resolve_paths obj = Inr (src, out, PStr c)"
      and "subscript options ''scripts_bucket'' = Inl e"
  shows "create_parser env obj options w = local_parser env (camel_to_snake c) c src out options w"
  by (simp add: create_parser_def assms(1) load_parser_from_s3_no_bucket [OF assms(2)])

lemma resolve_paths_job_object:
  "resolve_paths (job_object origin destiny c p) = Inr (s3_to_local origin, s3_to_local destiny, PStr c)"
  by (simp add: resolve_paths_def job_object_def)

lemma snake_ZipFileParser: "camel_to_snake ''ZipFileParser'' = ''zip_file_parser''"
  by code_simp

lemma snake_XmlToCsvParser: "camel_to_snake ''XmlToCsvParser'' = ''xml_to_csv_parser''"
  by code_simp

lemma sample_create_zip:
  "create_parser sample_env (job_object origin destiny ''ZipFileParser'' p) (PDict []) w =
     (Inr (ObjInstance (instance_attrs (ZipFileParser sample_fs (s3_to_local origin) (s3_to_local destiny)))), w)"
  by (simp add: create_parser_local_only [OF resolve_paths_job_object] local_parser_def
        snake_ZipFileParser sample_env_def parsers_package_def instantiate_def BaseParser_init_def)

lemma sample_create_xml:
  "create_parser sample_env (job_object origin destiny ''XmlToCsvParser'' p) (PDict []) w =
     (Inr (ObjInstance (instance_attrs (XmlToCsvParser sample_fs (s3_to_local origin) (s3_to_local destiny)))), w)"
  by (simp add: create_parser_local_only [OF resolve_paths_job_object] local_parser_def
        snake_XmlToCsvParser sample_env_def parsers_package_def instantiate_def BaseParser_init_def)

lemma s3_in_zip: "s3_to_local ''s3://in/a.zip'' = ''s3/in/a.zip''"
  by code_simp

lemma s3_out: "s3_to_local ''s3://out/'' = ''s3/out/''"
  by code_simp

subsection \<open>The executor\<close>




text \<open>
  C4. When the created parser has a \<open>run_operation\<close> attribute, the outcome of
  \<open>execute_transformation\<close> is that of calling this attribute with the operation name as
  its one argument: any returned value other than \<open>False\<close> is success. No other member
  of the instance enters the result, so neither the member named like the operation nor
  \<open>process\<close> is called by the executor.
\<close>

theorem execute_transformation_uses_run_operation:
  assumes "create_parser env obj options w = (Inr (ObjInstance attrs), w1)"
      and "attrs ''run_operation'' = Some run_op"
  shows "execute_transformation env obj operation_name options w =
           (case call_attr run_op [operation_name] [] w1 of
              (Inr result, w2) \<Rightarrow> (Inr (result \<noteq> PBool False), w2)
            | (Inl e, w2) \<Rightarrow> if is_Exception e then (Inr False, w2) else (Inl e, w2))"
  using assms
  by (simp add: execute_transformation_def dispatch_def split: prod.splits sum.splits)

theorem execute_transformation_uses_run_operation_witness:
  "create_parser sample_env (job_object ''s3://in/a.zip'' ''s3://out/'' ''ZipFileParser'' ''unzip'')
      (PDict []) [''s3/in/a.zip'']
     = (Inr (ObjInstance (instance_attrs (ZipFileParser sample_fs ''s3/in/a.zip'' ''s3/out/''))),
        [''s3/in/a.zip''])
   \<and> instance_attrs (ZipFileParser sample_fs ''s3/in/a.zip'' ''s3/out/'') ''run_operation''
     = Some (Callable (unary ''operation_name''
               (run_operation (ZipFileParser sample_fs ''s3/in/a.zip'' ''s3/out/''))))
   \<and> instance_attrs (ZipFileParser sample_fs ''s3/in/a.zip'' ''s3/out/'') ''unzip''
     = Some (Callable (unzip_method sample_fs ''s3/in/a.zip'' ''s3/out/''))
   \<and> execute_transformation sample_env
      (job_object ''s3://in/a.zip'' ''s3://out/'' ''ZipFileParser'' ''unzip'')
      (PStr ''unzip'') (PDict []) [''s3/in/a.zip'']
     = (Inr True, [''s3/out/a.xml'', ''s3/in/a.zip''])"
proof -
  let ?p = "ZipFileParser sample_fs ''s3/in/a.zip'' ''s3/out/''"
  have c: "create_parser sample_env (job_object ''s3://in/a.zip'' ''s3://out/'' ''ZipFileParser'' ''unzip'')
      (PDict []) [''s3/in/a.zip''] = (Inr (ObjInstance (instance_attrs ?p)), [''s3/in/a.zip''])"
    using sample_create_zip [of "''s3://in/a.zip''" "''s3://out/''" "''unzip''" "[''s3/in/a.zip'']"]
    by (simp add: s3_in_zip s3_out)
  have r: "instance_attrs ?p ''run_operation''
             = Some (Callable (unary ''operation_name'' (run_operation ?p)))"
    by (simp add: instance_attrs_def)
  have u: "instance_attrs ?p ''unzip'' = Some (Callable (unzip_method sample_fs ''s3/in/a.zip'' ''s3/out/''))"
    by (simp add: instance_attrs_def own_attrs_def ZipFileParser_def)
  have run: "run_operation ?p (PStr ''unzip'') [''s3/in/a.zip'']
               = (Inr (PBool True), [''s3/out/a.xml'', ''s3/in/a.zip''])"
    by (simp add: run_operation_def own_attrs_def ZipFileParser_def unzip_method_def unzip_def
          sample_fs_def path_join_def)
  from execute_transformation_uses_run_operation [OF c r, of "PStr ''unzip''"] run c r u
  show ?thesis by (simp add: unary_def)
qed

text \<open>
  C10 (a defect of the code). The entry has no \<open>origin\<close>, so \<open>create_parser\<close> returns
  \<open>False\<close>, which the \<open>is None\<close> guard lets through. With the operation name
  \<open>conjugate\<close>, which \<^verbatim>\<open>False\<close> has as a method, the executor calls
  \<^verbatim>\<open>False.conjugate()\<close> and reports success.
\<close>

theorem failed_creation_reported_as_success:
  "create_parser sample_env
      (PDict [(''destiny'', PStr ''s3://out/''), (''classname'', PStr ''ZipFileParser''),
              (''parser'', PStr ''conjugate'')]) (PDict []) [] = (Inr ObjFalse, [])
   \<and> execute_transformation sample_env
      (PDict [(''destiny'', PStr ''s3://out/''), (''classname'', PStr ''ZipFileParser''),
              (''parser'', PStr ''conjugate'')]) (PStr ''conjugate'') (PDict []) [] = (Inr True, [])"
  by (simp add: execute_transformation_def create_parser_def resolve_paths_def dispatch_def
        sample_env_def False_attrs_def returning_def)

subsection \<open>The resolver\<close>

lemma download_from_s3_import_module [simp]:
  "download_from_s3 (env\<lparr>import_module := imp\<rparr>) n kwargs w = download_from_s3 env n kwargs w"
  by (simp add: download_from_s3_def Let_def split: sum.splits pyval.splits)

lemma remote_attempt_import_module [simp]:
  "remote_attempt (env\<lparr>import_module := imp\<rparr>) m c kwargs w = remote_attempt env m c kwargs w"
  by (simp add: remote_attempt_def Let_def split: sum.splits prod.splits)


lemma snake_CustomParser: "camel_to_snake ''CustomParser'' = ''custom_parser''"
  by code_simp

lemma s3_in_xml: "s3_to_local ''s3://in/a.xml'' = ''s3/in/a.xml''"
  by code_simp

lemma download_remote_base:
  "download_from_s3 remote_env ''base_parser'' remote_options w
     = (Inr ''/tmp/s3_download_base_parser.py'', ''/tmp/s3_download_base_parser.py'' # w)"
  by (simp add: download_from_s3_def remote_env_def remote_options_def basename_def path_join_def Let_def)

lemma download_remote_custom:
  "download_from_s3 remote_env ''custom_parser'' remote_options w
     = (Inr ''/tmp/s3_download_custom_parser.py'', ''/tmp/s3_download_custom_parser.py'' # w)"
  by (simp add: download_from_s3_def remote_env_def remote_options_def basename_def path_join_def Let_def)


lemma exec_remote_custom:
  "exec_module remote_env n ''/tmp/s3_download_custom_parser.py'' w
     = (Inr (map_of [(''CustomParser'', CustomParser)]), w)"
  by (simp add: remote_env_def)


lemma remote_attempt_custom:
  "remote_attempt remote_env ''custom_parser'' ''CustomParser'' remote_options []
     = (Inr (Some CustomParser), [''/tmp/s3_download_custom_parser.py'', ''/tmp/s3_download_base_parser.py''])"
  by (simp add: remote_attempt_def download_remote_base download_remote_custom exec_remote_custom Let_def)







text \<open>
  C5 (a defect of the code). A class found remotely is instantiated with the two paths
  only: here the options hold three keys, and the instance of \<open>CustomParser\<close>, which
  keeps the keyword arguments of its constructor, has kept none. The local branch passes
  \<^verbatim>\<open>**options\<close>.
\<close>

theorem create_parser_ignores_options_remotely:
  "create_parser remote_env (job_object ''s3://in/a.xml'' ''s3://out/'' ''CustomParser'' ''process'')
      remote_options []
     = instantiate CustomParser ''s3/in/a.xml'' ''s3/out/'' []
         [''/tmp/s3_download_custom_parser.py'', ''/tmp/s3_download_base_parser.py'']
   \<and> remote_options \<noteq> PDict []
   \<and> (case fst (create_parser remote_env
                  (job_object ''s3://in/a.xml'' ''s3://out/'' ''CustomParser'' ''process'')
                  remote_options []) of
         Inr (ObjInstance attrs) \<Rightarrow> attrs ''options'' = Some (Data (PDict []))
       | _ \<Rightarrow> False)"
proof -
  have c: "create_parser remote_env (job_object ''s3://in/a.xml'' ''s3://out/'' ''CustomParser'' ''process'')
      remote_options []
     = instantiate CustomParser ''s3/in/a.xml'' ''s3/out/'' []
         [''/tmp/s3_download_custom_parser.py'', ''/tmp/s3_download_base_parser.py'']"
    by (simp add: create_parser_def resolve_paths_job_object snake_CustomParser
          load_parser_from_s3_def remote_attempt_custom s3_in_xml s3_out Let_def)
  have "remote_options \<noteq> PDict []" by (simp add: remote_options_def)
  with c show ?thesis by (simp add: instantiate_def CustomParser_def)
qed

subsection \<open>The base parser\<close>










subsection \<open>The job runner\<close>















end
